theory Spec2Isabelle
  imports Main
begin

section \<open>Data model\<close>

text \<open>
  The program is sequential glue around a screenshot tool, a barcode reader, an OCR
  engine and a widget toolkit. Those collaborators are not part of the sources; every
  call to one of them is modelled by a field of the record \<open>world\<close>, which fixes
  what the call answers, and by an entry in the log of calls made.
\<close>

type_synonym QString = string

text \<open>\<^verbatim>\<open>struct OcrResult\<close>: the default member initialiser sets \<open>isQrCode\<close> to false,
  the two strings are default-constructed (empty). \<open>success\<close> has no initialiser; both
  functions that create a result assign it before anything reads it.\<close>

record OcrResult =
  "text" :: QString
  success :: bool
  errorMessage :: QString
  isQrCode :: bool

definition OcrResult_new :: "bool \<Rightarrow> OcrResult" where
  "OcrResult_new s = \<lparr>text = [], success = s, errorMessage = [], isQrCode = False\<rparr>"

datatype Format = Format_RGB32 | Format_ARGB32 | Format_Other

record QImage =
  format :: Format
  constBits :: "nat list"

text \<open>The command line after \<open>parser.process\<close>: the value given to \<open>--lang\<close> if the
  option was set, and whether \<open>--disable-qr\<close> and \<open>--web\<close>/\<open>--browser\<close> were set.\<close>

record cmdline =
  langOption :: "QString option"
  disable_qr :: bool
  webBrowserOption :: bool

text \<open>\<open>parser.value(langOption)\<close>: the option is declared with the default \<open>eng\<close>.\<close>

definition parser_value :: "cmdline \<Rightarrow> QString" where
  "parser_value cl = (case langOption cl of None \<Rightarrow> ''eng'' | Some l \<Rightarrow> l)"

text \<open>What the collaborators answer.\<close>

record world =
  QProcess_execute :: "QString \<Rightarrow> QString list \<Rightarrow> int"
  QImage_load :: "QString \<Rightarrow> QImage option"
  convertToFormat :: "QImage \<Rightarrow> Format \<Rightarrow> QImage"
  ReadBarcode :: "QImage \<Rightarrow> QString option"
  Tess_Init :: "QString \<Rightarrow> int"
  pixRead :: "QString \<Rightarrow> nat list option"
  GetUTF8Text :: "nat list \<Rightarrow> QString"
  QDir_tempPath :: QString
  QDir_homePath :: QString
  currentDateTime :: "QString \<Rightarrow> QString"
  getSaveFileName :: "QString \<Rightarrow> QString \<Rightarrow> QString \<Rightarrow> QString"
  QFile_open :: "QString \<Rightarrow> bool"
  QFile_copy :: "QString \<Rightarrow> QString \<Rightarrow> bool"
  openUrl :: "QString \<Rightarrow> bool"
  mightBeRichText :: "QString \<Rightarrow> bool"
  htmlPlainText :: "QString \<Rightarrow> QString"
  app_exec :: int

text \<open>
  \<^item> \<open>QProcess_execute\<close>: the exit code of the program run with the arguments (the
    toolkit answers a negative code when the program cannot be started);
  \<^item> \<open>QImage_load\<close>: \<open>None\<close> when the image \<open>isNull\<close>;
  \<^item> \<open>ReadBarcode\<close>: \<open>Some\<close> of the decoded text when the result \<open>isValid\<close>;
  \<^item> \<open>Tess_Init\<close>: the return value of \<open>Init\<close> for a language, 0 on success;
  \<^item> \<open>pixRead\<close>: \<open>None\<close> for the null pointer;
  \<^item> \<open>currentDateTime\<close>: the current time printed in the given format;
  \<^item> \<open>getSaveFileName\<close>: caption, directory and filter to the chosen name, empty
    when the dialog is cancelled;
  \<^item> \<open>QFile_open\<close>: whether the file opens for writing;
  \<^item> \<open>mightBeRichText\<close>: the toolkit's guess whether a string is rich text;
  \<^item> \<open>htmlPlainText\<close>: the plain text of the document the toolkit's HTML parser
    builds from a string;
  \<^item> \<open>app_exec\<close>: the exit code of the event loop.
\<close>

datatype call =
    Execute QString "QString list"
  | LoadQImage QString
  | ZXingRead
  | TessInit QString
  | PixRead QString
  | TessSetImage
  | TessGetUTF8Text
  | PixDestroy
  | TessEnd
  | WindowShow
  | MessageBoxCritical QString QString
  | MessageBoxWarning QString QString
  | ClipboardSetText QString
  | SaveFileDialog QString QString QString
  | FileOpen QString
  | FileWrite QString QString
  | FileCopy QString QString
  | OpenUrl QString
  | AppExec

text \<open>The widgets of the window, and the calls made so far, oldest first. The field
  \<open>textEdit\<close> is the plain text of the text area, what \<open>toPlainText\<close> reads.\<close>

record gui =
  windowTitle :: QString
  label :: QString
  textEdit :: QString
  calls :: "call list"

definition emit :: "call list \<Rightarrow> gui \<Rightarrow> gui" where
  "emit cs g = g\<lparr>calls := calls g @ cs\<rparr>"

definition label_setText :: "QString \<Rightarrow> gui \<Rightarrow> gui" where
  "label_setText s g = g\<lparr>label := s\<rparr>"

text \<open>Modelled from the spec: \<open>QTextEdit::setText\<close> and \<open>toPlainText\<close> belong to the
  toolkit and are not among the sources. The spec has the text area hold the text it is
  given; the toolkit's documentation adds that \<open>setText\<close> guesses the format of the
  string: the empty string and a string the guess takes for plain text are held as they
  are, a string the guess takes for rich text is parsed as HTML, and the text area then
  holds the plain text of the parsed document. The guess and the parser are the
  toolkit's, fields of \<open>world\<close>.\<close>

definition textEdit_setText :: "world \<Rightarrow> QString \<Rightarrow> gui \<Rightarrow> gui" where
  "textEdit_setText w s g =
     g\<lparr>textEdit := (if s \<noteq> [] \<and> mightBeRichText w s then htmlPlainText w s else s)\<rparr>"

section \<open>Capture, barcode detection, text recognition\<close>

definition takeScreenshot :: "world \<Rightarrow> QString \<Rightarrow> bool \<times> call list" where
  "takeScreenshot w outputPath =
     (let args = [''-b'', ''-r'', ''-n'', ''-o'', outputPath];
          exitCode = QProcess_execute w ''spectacle'' args
      in (exitCode = 0, [Execute ''spectacle'' args]))"

definition detectQrCode :: "world \<Rightarrow> QString \<Rightarrow> OcrResult \<times> call list" where
  "detectQrCode w imagePath =
     (let result = OcrResult_new False in
      case QImage_load w imagePath of
        None \<Rightarrow>
          (result\<lparr>errorMessage := ''Failed to load image for QR detection''\<rparr>,
           [LoadQImage imagePath])
      | Some img \<Rightarrow>
          (let img1 = (if format img \<noteq> Format_RGB32 \<and> format img \<noteq> Format_ARGB32
                       then convertToFormat w img Format_RGB32 else img)
           in case ReadBarcode w img1 of
                Some t \<Rightarrow>
                  (result\<lparr>text := t, success := True, isQrCode := True\<rparr>,
                   [LoadQImage imagePath, ZXingRead])
              | None \<Rightarrow>
                  (result\<lparr>errorMessage := ''Failed to detect valid QR code''\<rparr>,
                   [LoadQImage imagePath, ZXingRead])))"

definition extractText :: "world \<Rightarrow> QString \<Rightarrow> QString \<Rightarrow> OcrResult \<times> call list" where
  "extractText w imagePath language =
     (let result = OcrResult_new True in
      if Tess_Init w language \<noteq> 0 then
        (result\<lparr>success := False,
                 errorMessage := ''Error initializing Tesseract OCR for language: '' @ language\<rparr>,
         [TessInit language])
      else
        (case pixRead w imagePath of
           None \<Rightarrow>
             (result\<lparr>success := False, errorMessage := ''Failed to load image''\<rparr>,
              [TessInit language, PixRead imagePath, TessEnd])
         | Some pix \<Rightarrow>
             (result\<lparr>text := GetUTF8Text w pix\<rparr>,
              [TessInit language, PixRead imagePath, TessSetImage, TessGetUTF8Text,
               PixDestroy, TessEnd])))"

section \<open>The HTML page\<close>

text \<open>The page is written three times in the source (the browser button and the two
  automatic exports), with the same literal text each time; only the expression for the
  embedded text differs. \<open>html_head\<close> ends before the time of generation, \<open>html_mid\<close>
  lies between the time and the embedded text, \<open>html_tail\<close> follows the text.\<close>

definition html_head :: string where
  \<open>html_head =
     ''<!DOCTYPE html>\<newline>'' @
     ''<html lang="en">\<newline>'' @
     ''<head>\<newline>'' @
     ''    <meta charset="UTF-8">\<newline>'' @
     ''    <meta name="viewport" content="width=device-width, initial-scale=1.0">\<newline>'' @
     ''    <title>OCR Results</title>\<newline>'' @
     ''    <style>\<newline>'' @
     ''        body {\<newline>'' @
     ''            font-family: Arial, sans-serif;\<newline>'' @
     ''            margin: 20px;\<newline>'' @
     ''            line-height: 1.6;\<newline>'' @
     ''            background-color: #f4f4f4;\<newline>'' @
     ''        }\<newline>'' @
     ''        .container {\<newline>'' @
     ''            max-width: 800px;\<newline>'' @
     ''            margin: 0 auto;\<newline>'' @
     ''            background-color: white;\<newline>'' @
     ''            padding: 20px;\<newline>'' @
     ''            border-radius: 8px;\<newline>'' @
     ''            box-shadow: 0 2px 4px rgba(0,0,0,0.1);\<newline>'' @
     ''        }\<newline>'' @
     ''        h1 {\<newline>'' @
     ''            color: #333;\<newline>'' @
     ''        }\<newline>'' @
     ''        .timestamp {\<newline>'' @
     ''            color: #666;\<newline>'' @
     ''            font-size: 0.9em;\<newline>'' @
     ''        }\<newline>'' @
     ''        .content {\<newline>'' @
     ''            width: 100%;\<newline>'' @
     ''            min-height: 300px;\<newline>'' @
     ''            padding: 15px;\<newline>'' @
     ''            border: 2px solid #007bff;\<newline>'' @
     ''            border-radius: 4px;\<newline>'' @
     ''            font-family: 'Courier New', monospace;\<newline>'' @
     ''            font-size: 14px;\<newline>'' @
     ''            box-sizing: border-box;\<newline>'' @
     ''            resize: vertical;\<newline>'' @
     ''        }\<newline>'' @
     ''        .button-group {\<newline>'' @
     ''            margin-top: 15px;\<newline>'' @
     ''            display: flex;\<newline>'' @
     ''            gap: 10px;\<newline>'' @
     ''        }\<newline>'' @
     ''        button {\<newline>'' @
     ''            padding: 10px 20px;\<newline>'' @
     ''            background-color: #007bff;\<newline>'' @
     ''            color: white;\<newline>'' @
     ''            border: none;\<newline>'' @
     ''            border-radius: 4px;\<newline>'' @
     ''            cursor: pointer;\<newline>'' @
     ''            font-size: 14px;\<newline>'' @
     ''        }\<newline>'' @
     ''        button:hover {\<newline>'' @
     ''            background-color: #0056b3;\<newline>'' @
     ''        }\<newline>'' @
     ''    </style>\<newline>'' @
     ''</head>\<newline>'' @
     ''<body>\<newline>'' @
     ''    <div class="container">\<newline>'' @
     ''        <h1>OCR Results</h1>\<newline>'' @
     ''        <p class="timestamp">Generated: ''\<close>

definition html_mid :: string where
  \<open>html_mid =
     ''</p>\<newline>'' @
     ''        <textarea id="content" class="content">''\<close>

definition html_tail :: string where
  \<open>html_tail =
     ''</textarea>\<newline>'' @
     ''        <div class="button-group">\<newline>'' @
     ''            <button onclick="copyText()">Copy to Clipboard</button>\<newline>'' @
     ''            <button onclick="downloadText()">Download as TXT</button>\<newline>'' @
     ''        </div>\<newline>'' @
     ''    </div>\<newline>'' @
     ''    <script>\<newline>'' @
     ''        function copyText() {\<newline>'' @
     ''            const textarea = document.getElementById('content');\<newline>'' @
     ''            textarea.select();\<newline>'' @
     ''            document.execCommand('copy');\<newline>'' @
     ''            alert('Text copied to clipboard!');\<newline>'' @
     ''        }\<newline>'' @
     ''        function downloadText() {\<newline>'' @
     ''            const textarea = document.getElementById('content');\<newline>'' @
     ''            const text = textarea.value;\<newline>'' @
     ''            const element = document.createElement('a');\<newline>'' @
     ''            element.setAttribute('href', 'data:text/plain;charset=utf-8,' + encodeURIComponent(text));\<newline>'' @
     ''            element.setAttribute('download', 'ocr_result.txt');\<newline>'' @
     ''            element.style.display = 'none';\<newline>'' @
     ''            document.body.appendChild(element);\<newline>'' @
     ''            element.click();\<newline>'' @
     ''            document.body.removeChild(element);\<newline>'' @
     ''        }\<newline>'' @
     ''    </script>\<newline>'' @
     ''</body>\<newline>'' @
     ''</html>\<newline>''\<close>

text \<open>Modelled from the spec: \<open>QString::toHtmlEscaped\<close> belongs to the toolkit and is
  not among the sources. The spec has the export escape the angle brackets and the
  ampersands of the text; the toolkit's documentation names the entities and treats the
  double quote in the same way. Every other character is kept.\<close>

definition htmlEscapeChar :: "char \<Rightarrow> string" where
  \<open>htmlEscapeChar ch =
     (if ch = CHR ''<'' then ''&lt;''
      else if ch = CHR ''>'' then ''&gt;''
      else if ch = CHR ''&'' then ''&amp;''
      else if ch = CHR ''"'' then ''&quot;''
      else [ch])\<close>

text \<open>Modelled from the spec: the escaping of a text, character by character (the
  toolkit's function is not among the sources).\<close>

definition toHtmlEscaped :: "QString \<Rightarrow> QString" where
  "toHtmlEscaped s = concat (map htmlEscapeChar s)"

definition html_path :: "world \<Rightarrow> QString" where
  "html_path w =
     QDir_tempPath w @ ''/ocr_result_'' @ currentDateTime w ''yyyyMMdd_hhmmss'' @ ''.html''"

definition html_document :: "world \<Rightarrow> QString \<Rightarrow> QString" where
  "html_document w escaped =
     html_head @ currentDateTime w ''yyyy-MM-dd hh:mm:ss'' @ html_mid @ escaped @ html_tail"

section \<open>The button handlers\<close>

text \<open>The handlers read the widgets and \<open>tempPath\<close>, the fixed place of the
  screenshot, which \<open>main\<close> sets before it connects them.\<close>

definition tempPath :: "world \<Rightarrow> QString" where
  "tempPath w = QDir_tempPath w @ ''/screenshot.png''"

definition copyButton_clicked :: "world \<Rightarrow> gui \<Rightarrow> gui" where
  "copyButton_clicked w g =
     (if textEdit g \<noteq> [] then
        label_setText ''Text copied to clipboard'' (emit [ClipboardSetText (textEdit g)] g)
      else label_setText ''No text to copy'' g)"

definition text_filter :: QString where
  "text_filter = ''Text Files ('' @ ''*.txt);;All Files ('' @ ''*)''"

definition image_filter :: QString where
  "image_filter = ''Image Files ('' @ ''*.png);;All Files ('' @ ''*)''"

definition saveButton_clicked :: "world \<Rightarrow> gui \<Rightarrow> gui" where
  "saveButton_clicked w g =
     (if textEdit g \<noteq> [] then
        (let fileName = getSaveFileName w ''Save OCR Text'' (QDir_homePath w) text_filter;
             g1 = emit [SaveFileDialog ''Save OCR Text'' (QDir_homePath w) text_filter] g
         in if fileName \<noteq> [] then
              (if QFile_open w fileName then
                 label_setText ''Text saved to file''
                   (emit [FileOpen fileName, FileWrite fileName (textEdit g1)] g1)
               else
                 emit [MessageBoxCritical ''Error'' ''Failed to save the file'']
                   (label_setText ''Failed to save file'' (emit [FileOpen fileName] g1)))
            else g1)
      else label_setText ''No text to save'' g)"

definition saveImageButton_clicked :: "world \<Rightarrow> gui \<Rightarrow> gui" where
  "saveImageButton_clicked w g =
     (let timestamp = currentDateTime w ''yyyyMMdd_hhmmss'';
          defaultImageName = QDir_homePath w @ ''/Screenshot_'' @ timestamp;
          imageFileName = getSaveFileName w ''Save Screenshot'' defaultImageName image_filter;
          g1 = emit [SaveFileDialog ''Save Screenshot'' defaultImageName image_filter] g
      in if imageFileName \<noteq> [] then
           (if QFile_copy w (tempPath w) imageFileName then
              label_setText ''Screenshot saved successfully''
                (emit [FileCopy (tempPath w) imageFileName] g1)
            else
              emit [MessageBoxCritical ''Error'' ''Failed to save the screenshot file'']
                (label_setText ''Failed to save screenshot''
                   (emit [FileCopy (tempPath w) imageFileName] g1)))
         else g1)"

definition browserButton_clicked :: "world \<Rightarrow> gui \<Rightarrow> gui" where
  "browserButton_clicked w g =
     (if textEdit g \<noteq> [] then
        (let htmlPath = html_path w in
         if QFile_open w htmlPath then
           (let g1 = emit [FileOpen htmlPath,
                           FileWrite htmlPath (html_document w (toHtmlEscaped (textEdit g))),
                           OpenUrl htmlPath] g
            in if openUrl w htmlPath then
                 label_setText ''OCR results opened in web browser'' g1
               else
                 emit [MessageBoxWarning ''Warning'' ''Could not open default web browser'']
                   (label_setText ''Failed to open web browser'' g1))
         else
           emit [MessageBoxCritical ''Error'' ''Failed to create temporary HTML file'']
             (label_setText ''Failed to create HTML file'' (emit [FileOpen htmlPath] g)))
      else label_setText ''No text to display'' g)"

section \<open>The orchestrator\<close>

text \<open>The block that follows a successful recognition when the browser was asked for
  (it stands twice in \<open>main\<close>, after the barcode and after the OCR): the page is written
  and handed to the browser if the file opens; nothing is done if it does not, and the
  answer of \<open>openUrl\<close> is dropped.\<close>

definition autoExport :: "world \<Rightarrow> OcrResult \<Rightarrow> gui \<Rightarrow> gui" where
  "autoExport w result g =
     (let htmlPath = html_path w in
      if QFile_open w htmlPath then
        emit [FileOpen htmlPath,
              FileWrite htmlPath (html_document w (toHtmlEscaped (text result))),
              OpenUrl htmlPath] g
      else emit [FileOpen htmlPath] g)"

definition window_new :: "QString \<Rightarrow> gui" where
  "window_new language =
     \<lparr>windowTitle = ''Spectacle Screenshot OCR - Language: '' @ language,
      label = [], textEdit = [], calls = []\<rparr>"

text \<open>\<open>main\<close> from the call of \<open>extractText\<close> on: reached when the barcode detection is
  disabled or has failed.\<close>

definition main_ocr :: "world \<Rightarrow> bool \<Rightarrow> QString \<Rightarrow> gui \<Rightarrow> int \<times> gui" where
  "main_ocr w openInBrowser language g =
     (case extractText w (tempPath w) language of (result, cs) \<Rightarrow>
        (let g1 = emit cs g in
         if \<not> success result then
           (app_exec w,
            emit [WindowShow, AppExec]
              (label_setText (errorMessage result) (textEdit_setText w [] g1)))
         else
           (let g2 = label_setText ''Text extracted successfully.''
                       (textEdit_setText w (text result) g1)
            in if openInBrowser then (0, autoExport w result g2)
               else (app_exec w, emit [WindowShow, AppExec] g2))))"

definition main :: "world \<Rightarrow> cmdline \<Rightarrow> int \<times> gui" where
  "main w cl =
     (let language = parser_value cl;
          openInBrowser = webBrowserOption cl;
          g0 = window_new language
      in case takeScreenshot w (tempPath w) of (captured, cs) \<Rightarrow>
           (let g1 = emit cs g0 in
            if captured then
              (if \<not> disable_qr cl then
                 (case detectQrCode w (tempPath w) of (result, cs2) \<Rightarrow>
                    (let g2 = emit cs2 g1 in
                     if success result then
                       (let g3 = label_setText ''QR code detected and decoded successfully''
                                   (textEdit_setText w (text result) g2)
                        in if openInBrowser then (0, autoExport w result g3)
                           else (app_exec w, emit [WindowShow, AppExec] g3))
                     else main_ocr w openInBrowser language g2))
               else main_ocr w openInBrowser language g1)
            else
              (app_exec w,
               emit [WindowShow,
                     MessageBoxCritical ''Error''
                       ''Failed to launch Spectacle or take screenshot'',
                     AppExec]
                 (label_setText ''Error occurred while taking screenshot''
                    (textEdit_setText w [] g1)))))"

section \<open>Observations on a run\<close>

text \<open>The calls that belong to the text recogniser, the languages it was initialised
  with, and the files written, each in the order of the log.\<close>

fun is_ocr_call :: "call \<Rightarrow> bool" where
  "is_ocr_call (TessInit l) = True"
| "is_ocr_call (PixRead p) = True"
| "is_ocr_call TessSetImage = True"
| "is_ocr_call TessGetUTF8Text = True"
| "is_ocr_call PixDestroy = True"
| "is_ocr_call TessEnd = True"
| "is_ocr_call c = False"

fun ocr_invocations :: "call list \<Rightarrow> QString list" where
  "ocr_invocations [] = []"
| "ocr_invocations (TessInit l # cs) = l # ocr_invocations cs"
| "ocr_invocations (c # cs) = ocr_invocations cs"

fun file_writes :: "call list \<Rightarrow> (QString \<times> QString) list" where
  "file_writes [] = []"
| "file_writes (FileWrite p c # cs) = (p, c) # file_writes cs"
| "file_writes (c # cs) = file_writes cs"

text \<open>The capture succeeded and a text was recognised, by the barcode detector when it
  is enabled and succeeds, by the text recogniser otherwise.\<close>

definition recognition_succeeds :: "world \<Rightarrow> cmdline \<Rightarrow> bool" where
  "recognition_succeeds w cl \<longleftrightarrow>
     fst (takeScreenshot w (tempPath w)) \<and>
     (if \<not> disable_qr cl \<and> success (fst (detectQrCode w (tempPath w))) then True
      else success (fst (extractText w (tempPath w) (parser_value cl))))"

text \<open>The outcome \<open>main\<close> goes on with after a capture: the detector's when the
  barcode detection is enabled and succeeds, the recogniser's otherwise.\<close>

definition recognised :: "world \<Rightarrow> cmdline \<Rightarrow> OcrResult" where
  "recognised w cl =
     (if \<not> disable_qr cl \<and> success (fst (detectQrCode w (tempPath w)))
      then fst (detectQrCode w (tempPath w))
      else fst (extractText w (tempPath w) (parser_value cl)))"

text \<open>The window after the capture, and after the barcode detection.\<close>

definition after_capture :: "world \<Rightarrow> cmdline \<Rightarrow> gui" where
  "after_capture w cl =
     emit (snd (takeScreenshot w (tempPath w))) (window_new (parser_value cl))"

definition after_qr :: "world \<Rightarrow> cmdline \<Rightarrow> gui" where
  "after_qr w cl = emit (snd (detectQrCode w (tempPath w))) (after_capture w cl)"

text \<open>The entities the escaping writes.\<close>

definition html_entities :: "string list" where
  "html_entities = [''&lt;'', ''&gt;'', ''&amp;'', ''&quot;'']"

section \<open>An example world\<close>

text \<open>A capture that succeeds, an image without a barcode, an OCR engine that knows
  \<open>eng\<close> only and reads \<open>a<b\<close>, a file system that accepts every write, and a
  toolkit that knows the one element \<open>b\<close>: a string with the tag \<open><b>\<close> is taken
  for rich text, and the tag is not part of the plain text of its document.\<close>

fun drop_bold :: "string \<Rightarrow> string" where
  "drop_bold (c1 # c2 # c3 # cs) =
     (if [c1, c2, c3] = ''<b>'' then drop_bold cs else c1 # drop_bold (c2 # c3 # cs))"
| "drop_bold cs = cs"

definition world0 :: world where
  "world0 =
     \<lparr>QProcess_execute = (\<lambda>prog args. 0),
      QImage_load = (\<lambda>p. Some \<lparr>format = Format_Other, constBits = [0]\<rparr>),
      convertToFormat = (\<lambda>i f. i\<lparr>format := f\<rparr>),
      ReadBarcode = (\<lambda>i. None),
      Tess_Init = (\<lambda>l. if l = ''eng'' then 0 else - 1),
      pixRead = (\<lambda>p. Some [0]),
      GetUTF8Text = (\<lambda>p. ''a<b''),
      QDir_tempPath = ''/tmp'',
      QDir_homePath = ''/home/u'',
      currentDateTime = (\<lambda>f. if f = ''yyyyMMdd_hhmmss'' then ''20240101_120000''
                              else ''2024-01-01 12:00:00''),
      getSaveFileName = (\<lambda>caption dir filter. ''/home/u/out''),
      QFile_open = (\<lambda>p. True),
      QFile_copy = (\<lambda>src dst. True),
      openUrl = (\<lambda>p. True),
      mightBeRichText = (\<lambda>s. drop_bold s \<noteq> s),
      htmlPlainText = drop_bold,
      app_exec = 0\<rparr>"

definition cmdline0 :: cmdline where
  "cmdline0 = \<lparr>langOption = None, disable_qr = False, webBrowserOption = False\<rparr>"

definition cmdline_web :: cmdline where
  "cmdline_web = cmdline0\<lparr>webBrowserOption := True\<rparr>"


text \<open>The same world with a barcode in the image; with a barcode whose payload holds
  the tag \<open><b>\<close>; with a barcode and a temporary directory that refuses every write;
  with one image file that does not load.\<close>

definition world_qr :: world where
  "world_qr = world0\<lparr>ReadBarcode := (\<lambda>i. Some ''https://example.org'')\<rparr>"

definition world_markup :: world where
  "world_markup = world0\<lparr>ReadBarcode := (\<lambda>i. Some ''a<b>c'')\<rparr>"

definition world_readonly :: world where
  "world_readonly = world_qr\<lparr>QFile_open := (\<lambda>p. False)\<rparr>"

definition world_missing :: world where
  "world_missing =
     world0\<lparr>QImage_load := (\<lambda>p. if p = ''missing.png'' then None
                                else Some \<lparr>format = Format_ARGB32, constBits = [0]\<rparr>)\<rparr>"

text \<open>The window as a run of \<open>world0\<close> leaves it.\<close>

definition gui_ab :: gui where
  "gui_ab = \<lparr>windowTitle = ''Spectacle Screenshot OCR - Language: eng'',
             label = ''Text extracted successfully.'', textEdit = ''a<b'', calls = []\<rparr>"

section \<open>The calls each function makes\<close>

lemmas gui_ops = emit_def label_setText_def textEdit_setText_def window_new_def

lemma takeScreenshot_fst:
  "fst (takeScreenshot w p) \<longleftrightarrow>
     QProcess_execute w ''spectacle'' [''-b'', ''-r'', ''-n'', ''-o'', p] = 0"
  by (simp add: takeScreenshot_def Let_def)

lemma takeScreenshot_snd:
  "snd (takeScreenshot w p) = [Execute ''spectacle'' [''-b'', ''-r'', ''-n'', ''-o'', p]]"
  by (simp add: takeScreenshot_def Let_def)

lemma detectQrCode_snd:
  "snd (detectQrCode w p) =
     (if QImage_load w p = None then [LoadQImage p] else [LoadQImage p, ZXingRead])"
  by (simp add: detectQrCode_def Let_def split: option.splits)

lemma extractText_snd:
  "snd (extractText w p l) =
     (if Tess_Init w l \<noteq> 0 then [TessInit l]
      else if pixRead w p = None then [TessInit l, PixRead p, TessEnd]
      else [TessInit l, PixRead p, TessSetImage, TessGetUTF8Text, PixDestroy, TessEnd])"
  by (simp add: extractText_def Let_def split: option.splits)

section \<open>The three ways through the orchestrator\<close>

lemma main_capture_failed:
  assumes "\<not> fst (takeScreenshot w (tempPath w))"
  shows "main w cl =
     (app_exec w,
      \<lparr>windowTitle = ''Spectacle Screenshot OCR - Language: '' @ parser_value cl,
       label = ''Error occurred while taking screenshot'',
       textEdit = [],
       calls = snd (takeScreenshot w (tempPath w)) @
               [WindowShow,
                MessageBoxCritical ''Error'' ''Failed to launch Spectacle or take screenshot'',
                AppExec]\<rparr>)"
  using assms by (simp add: main_def Let_def gui_ops case_prod_beta)

lemma main_qr_success:
  assumes "fst (takeScreenshot w (tempPath w))" "\<not> disable_qr cl"
    "success (fst (detectQrCode w (tempPath w)))"
  shows "main w cl =
     (let g3 = label_setText ''QR code detected and decoded successfully''
                 (textEdit_setText w (text (fst (detectQrCode w (tempPath w)))) (after_qr w cl))
      in if webBrowserOption cl then (0, autoExport w (fst (detectQrCode w (tempPath w))) g3)
         else (app_exec w, emit [WindowShow, AppExec] g3))"
  using assms by (simp add: main_def Let_def after_qr_def after_capture_def case_prod_beta)

lemma main_ocr_reached:
  assumes "fst (takeScreenshot w (tempPath w))"
    "disable_qr cl \<or> \<not> success (fst (detectQrCode w (tempPath w)))"
  shows "main w cl =
     main_ocr w (webBrowserOption cl) (parser_value cl)
       (if disable_qr cl then after_capture w cl else after_qr w cl)"
  using assms
  by (auto simp add: main_def Let_def after_qr_def after_capture_def case_prod_beta)

section \<open>Capture failure\<close>

text \<open>
  Claim C1. If the screenshot command exits with a code other than 0 (the toolkit
  answers a negative code when the tool is missing), the orchestrator leaves the text
  area empty, sets the status label to an error message, shows the window, raises a
  blocking error alert and then enters the event loop: these are, in this order, the
  only calls after the capture, and the exit code of \<open>main\<close> is the event loop's.
\<close>

theorem capture_failure_shows_error_alert:
  assumes "QProcess_execute w ''spectacle'' [''-b'', ''-r'', ''-n'', ''-o'', tempPath w] \<noteq> 0"
  shows "textEdit (snd (main w cl)) = [] \<and>
         label (snd (main w cl)) = ''Error occurred while taking screenshot'' \<and>
         calls (snd (main w cl)) =
           [Execute ''spectacle'' [''-b'', ''-r'', ''-n'', ''-o'', tempPath w],
            WindowShow,
            MessageBoxCritical ''Error'' ''Failed to launch Spectacle or take screenshot'',
            AppExec] \<and>
         fst (main w cl) = app_exec w"
proof -
  from assms have "\<not> fst (takeScreenshot w (tempPath w))"
    by (simp add: takeScreenshot_fst)
  then show ?thesis
    by (simp add: main_capture_failed takeScreenshot_snd)
qed

theorem capture_failure_shows_error_alert_witness:
  "QProcess_execute (world0\<lparr>QProcess_execute := (\<lambda>prog args. 1)\<rparr>) ''spectacle''
     [''-b'', ''-r'', ''-n'', ''-o'', ''/tmp/screenshot.png''] \<noteq> 0 \<and>
   textEdit (snd (main (world0\<lparr>QProcess_execute := (\<lambda>prog args. 1)\<rparr>) cmdline0)) = [] \<and>
   label (snd (main (world0\<lparr>QProcess_execute := (\<lambda>prog args. 1)\<rparr>) cmdline0)) =
     ''Error occurred while taking screenshot'' \<and>
   calls (snd (main (world0\<lparr>QProcess_execute := (\<lambda>prog args. 1)\<rparr>) cmdline0)) =
     [Execute ''spectacle'' [''-b'', ''-r'', ''-n'', ''-o'', ''/tmp/screenshot.png''],
      WindowShow,
      MessageBoxCritical ''Error'' ''Failed to launch Spectacle or take screenshot'',
      AppExec] \<and>
   fst (main (world0\<lparr>QProcess_execute := (\<lambda>prog args. 1)\<rparr>) cmdline0) = 0"
  using capture_failure_shows_error_alert
          [of "world0\<lparr>QProcess_execute := (\<lambda>prog args. 1)\<rparr>" cmdline0]
  by (simp add: world0_def tempPath_def)

section \<open>Facts about the log\<close>

lemma is_ocr_call_takeScreenshot: "filter is_ocr_call (snd (takeScreenshot w p)) = []"
  by (simp add: takeScreenshot_snd)

lemma is_ocr_call_detectQrCode: "filter is_ocr_call (snd (detectQrCode w p)) = []"
  by (simp add: detectQrCode_snd)

lemma is_ocr_call_extractText:
  "filter is_ocr_call (snd (extractText w p l)) = snd (extractText w p l)"
  by (simp add: extractText_snd)

lemma ocr_invocations_append:
  "ocr_invocations (xs @ ys) = ocr_invocations xs @ ocr_invocations ys"
  by (induction xs rule: ocr_invocations.induct) simp_all

lemma ocr_invocations_extractText: "ocr_invocations (snd (extractText w p l)) = [l]"
  by (simp add: extractText_snd)

lemma file_writes_append: "file_writes (xs @ ys) = file_writes xs @ file_writes ys"
  by (induction xs rule: file_writes.induct) simp_all

lemma calls_after_capture: "calls (after_capture w cl) = snd (takeScreenshot w (tempPath w))"
  by (simp add: after_capture_def gui_ops)

lemma calls_after_qr:
  "calls (after_qr w cl) =
     snd (takeScreenshot w (tempPath w)) @ snd (detectQrCode w (tempPath w))"
  by (simp add: after_qr_def calls_after_capture emit_def)

lemma calls_autoExport:
  "calls (autoExport w r g) =
     calls g @
     (if QFile_open w (html_path w)
      then [FileOpen (html_path w),
            FileWrite (html_path w) (html_document w (toHtmlEscaped (text r))),
            OpenUrl (html_path w)]
      else [FileOpen (html_path w)])"
  by (simp add: autoExport_def Let_def emit_def)

lemma autoExport_widgets:
  "textEdit (autoExport w r g) = textEdit g" "label (autoExport w r g) = label g"
  by (simp_all add: autoExport_def Let_def emit_def)

lemma no_show_after_capture: "WindowShow \<notin> set (calls (after_capture w cl))"
  by (simp add: calls_after_capture takeScreenshot_snd)

lemma no_show_after_qr: "WindowShow \<notin> set (calls (after_qr w cl))"
  by (simp add: calls_after_qr takeScreenshot_snd detectQrCode_snd)

lemma file_writes_after_capture: "file_writes (calls (after_capture w cl)) = []"
  by (simp add: calls_after_capture takeScreenshot_snd)

lemma file_writes_after_qr: "file_writes (calls (after_qr w cl)) = []"
  by (simp add: calls_after_qr takeScreenshot_snd detectQrCode_snd)

section \<open>Facts about the example worlds\<close>

lemma world0_captured: "fst (takeScreenshot world0 (tempPath world0))"
  by (simp add: takeScreenshot_fst world0_def)

lemma world_qr_captured: "fst (takeScreenshot world_qr (tempPath world_qr))"
  by (simp add: takeScreenshot_fst world_qr_def world0_def)

lemma world0_detect:
  "fst (detectQrCode world0 (tempPath world0)) =
     \<lparr>text = [], success = False, errorMessage = ''Failed to detect valid QR code'',
      isQrCode = False\<rparr>"
  by (simp add: detectQrCode_def Let_def OcrResult_new_def world0_def)

lemma world_qr_detect:
  "fst (detectQrCode world_qr (tempPath world_qr)) =
     \<lparr>text = ''https://example.org'', success = True, errorMessage = [], isQrCode = True\<rparr>"
  by (simp add: detectQrCode_def Let_def OcrResult_new_def world_qr_def world0_def)

lemma world0_extract:
  "fst (extractText world0 p ''eng'') =
     \<lparr>text = ''a<b'', success = True, errorMessage = [], isQrCode = False\<rparr>"
  by (simp add: extractText_def Let_def OcrResult_new_def world0_def)

lemma world0_html_path: "html_path world0 = ''/tmp/ocr_result_20240101_120000.html''"
  by (simp add: html_path_def world0_def)

section \<open>The files a run writes\<close>

lemma file_writes_main_ocr:
  "file_writes (calls (snd (main_ocr w b l g))) =
     file_writes (calls g) @
     (if b \<and> success (fst (extractText w (tempPath w) l)) \<and> QFile_open w (html_path w)
      then [(html_path w,
             html_document w (toHtmlEscaped (text (fst (extractText w (tempPath w) l)))))]
      else [])"
  by (simp add: main_ocr_def case_prod_beta Let_def gui_ops calls_autoExport
      file_writes_append extractText_snd)

lemma file_writes_main:
  "file_writes (calls (snd (main w cl))) =
     (if webBrowserOption cl \<and> recognition_succeeds w cl \<and> QFile_open w (html_path w)
      then [(html_path w, html_document w (toHtmlEscaped (text (recognised w cl))))]
      else [])"
proof (cases "fst (takeScreenshot w (tempPath w))")
  case False
  then show ?thesis
    by (simp add: main_capture_failed recognition_succeeds_def takeScreenshot_snd)
next
  case captured: True
  show ?thesis
  proof (cases "\<not> disable_qr cl \<and> success (fst (detectQrCode w (tempPath w)))")
    case True
    then show ?thesis
      using captured
      by (simp add: main_qr_success recognition_succeeds_def recognised_def Let_def
          calls_autoExport gui_ops file_writes_append file_writes_after_qr)
  next
    case False
    then have r: "disable_qr cl \<or> \<not> success (fst (detectQrCode w (tempPath w)))"
      by blast
    have m: "main w cl = main_ocr w (webBrowserOption cl) (parser_value cl)
               (if disable_qr cl then after_capture w cl else after_qr w cl)"
      using captured r by (rule main_ocr_reached)
    have n: "file_writes (calls (if disable_qr cl then after_capture w cl else after_qr w cl)) = []"
      by (simp add: file_writes_after_capture file_writes_after_qr)
    show ?thesis
      using captured r n
      by (auto simp add: m file_writes_main_ocr recognition_succeeds_def recognised_def)
  qed
qed

section \<open>A decoded barcode in the text area\<close>

lemma barcode_success_window:
  assumes "fst (takeScreenshot w (tempPath w))" and "\<not> disable_qr cl"
    and "success (fst (detectQrCode w (tempPath w)))"
  shows "textEdit (snd (main w cl)) =
           (if text (fst (detectQrCode w (tempPath w))) \<noteq> [] \<and>
               mightBeRichText w (text (fst (detectQrCode w (tempPath w))))
            then htmlPlainText w (text (fst (detectQrCode w (tempPath w))))
            else text (fst (detectQrCode w (tempPath w)))) \<and>
         label (snd (main w cl)) = ''QR code detected and decoded successfully'' \<and>
         filter is_ocr_call (calls (snd (main w cl))) = []"
proof -
  have t: "textEdit (snd (main w cl)) =
           (if text (fst (detectQrCode w (tempPath w))) \<noteq> [] \<and>
               mightBeRichText w (text (fst (detectQrCode w (tempPath w))))
            then htmlPlainText w (text (fst (detectQrCode w (tempPath w))))
            else text (fst (detectQrCode w (tempPath w))))"
    using assms by (simp add: main_qr_success Let_def autoExport_widgets gui_ops)
  have l: "label (snd (main w cl)) = ''QR code detected and decoded successfully''"
    using assms by (simp add: main_qr_success Let_def autoExport_widgets gui_ops)
  have c: "filter is_ocr_call (calls (snd (main w cl))) = []"
    using assms
    by (simp add: main_qr_success Let_def calls_autoExport gui_ops calls_after_qr
        is_ocr_call_takeScreenshot is_ocr_call_detectQrCode)
  from t l c show ?thesis by simp
qed

lemma world_markup_captured: "fst (takeScreenshot world_markup (tempPath world_markup))"
  by (simp add: takeScreenshot_fst world_markup_def world0_def)

lemma world_markup_detect:
  "fst (detectQrCode world_markup (tempPath world_markup)) =
     \<lparr>text = ''a<b>c'', success = True, errorMessage = [], isQrCode = True\<rparr>"
  by (simp add: detectQrCode_def Let_def OcrResult_new_def world_markup_def world0_def)

lemma world_markup_toolkit:
  "mightBeRichText world_markup ''a<b>c''" "htmlPlainText world_markup ''a<b>c'' = ''ac''"
  by (simp_all add: world_markup_def world0_def)

text \<open>
  Claim C2 has the text area show the decoded payload whenever the barcode detection is
  enabled and succeeds. \<open>main\<close> hands the payload to \<open>setText\<close>, which takes a payload
  that looks like markup for rich text. In a run without \<open>--web\<close> whose barcode decodes
  to \<open>a<b>c\<close>, the status label reads \<open>QR code detected and decoded successfully\<close> and
  the text recogniser is not called, but the text area holds \<open>ac\<close>, not the payload;
  the page of the automatic export, written in the same world with \<open>--web\<close>, embeds the
  payload itself, escaped.
\<close>

theorem barcode_markup_payload_not_displayed:
  "fst (takeScreenshot world_markup (tempPath world_markup)) \<and>
   \<not> disable_qr cmdline0 \<and>
   success (fst (detectQrCode world_markup (tempPath world_markup))) \<and>
   text (fst (detectQrCode world_markup (tempPath world_markup))) = ''a<b>c'' \<and>
   textEdit (snd (main world_markup cmdline0)) = ''ac'' \<and>
   label (snd (main world_markup cmdline0)) = ''QR code detected and decoded successfully'' \<and>
   filter is_ocr_call (calls (snd (main world_markup cmdline0))) = [] \<and>
   file_writes (calls (snd (main world_markup cmdline_web))) =
     [(''/tmp/ocr_result_20240101_120000.html'',
       html_head @ ''2024-01-01 12:00:00'' @ html_mid @ ''a&lt;b&gt;c'' @ html_tail)]"
proof -
  have h1: "fst (takeScreenshot world_markup (tempPath world_markup))"
    by (rule world_markup_captured)
  have h2: "\<not> disable_qr cmdline0" "\<not> disable_qr cmdline_web" "webBrowserOption cmdline_web"
    by (simp_all add: cmdline0_def cmdline_web_def)
  have h3: "success (fst (detectQrCode world_markup (tempPath world_markup)))"
    by (simp add: world_markup_detect)
  have e: "toHtmlEscaped ''a<b>c'' = ''a&lt;b&gt;c''"
    by (simp add: toHtmlEscaped_def htmlEscapeChar_def)
  have r: "recognition_succeeds world_markup cmdline_web"
    using h1 h2 h3 by (simp add: recognition_succeeds_def)
  have x: "text (recognised world_markup cmdline_web) = ''a<b>c''"
    using h2 h3 by (simp add: recognised_def world_markup_detect)
  have o: "QFile_open world_markup (html_path world_markup)"
    "html_path world_markup = ''/tmp/ocr_result_20240101_120000.html''"
    "currentDateTime world_markup ''yyyy-MM-dd hh:mm:ss'' = ''2024-01-01 12:00:00''"
    by (simp_all add: html_path_def world_markup_def world0_def)
  have f: "file_writes (calls (snd (main world_markup cmdline_web))) =
     [(''/tmp/ocr_result_20240101_120000.html'',
       html_head @ ''2024-01-01 12:00:00'' @ html_mid @ ''a&lt;b&gt;c'' @ html_tail)]"
    using r h2 o by (simp add: file_writes_main x e html_document_def)
  show ?thesis
    using h1 h2 h3 f barcode_success_window [OF h1 h2(1) h3]
    by (simp add: world_markup_detect world_markup_toolkit)
qed

section \<open>The text recogniser is called once\<close>

lemma main_ocr_calls:
  "\<exists>cs. calls (snd (main_ocr w b l g)) = calls g @ snd (extractText w (tempPath w) l) @ cs \<and>
        filter is_ocr_call cs = [] \<and> ocr_invocations cs = []"
  by (simp add: main_ocr_def case_prod_beta Let_def gui_ops calls_autoExport)

text \<open>
  Claim C3. In every run in which the capture succeeds and the barcode detection is
  disabled or fails, the OCR engine is initialised exactly once, with the language
  \<open>parser.value(langOption)\<close>, which is the value of \<open>--lang\<close> and \<open>eng\<close> when the option
  is absent; the calls of the run that belong to the recogniser are those of one call of
  \<open>extractText\<close> with that language.
\<close>

theorem ocr_invoked_once_with_language:
  assumes "fst (takeScreenshot w (tempPath w))"
    and "disable_qr cl \<or> \<not> success (fst (detectQrCode w (tempPath w)))"
  shows "ocr_invocations (calls (snd (main w cl))) = [parser_value cl] \<and>
         filter is_ocr_call (calls (snd (main w cl))) =
           snd (extractText w (tempPath w) (parser_value cl)) \<and>
         parser_value cl = (case langOption cl of None \<Rightarrow> ''eng'' | Some l \<Rightarrow> l)"
proof -
  let ?g = "if disable_qr cl then after_capture w cl else after_qr w cl"
  have m: "main w cl = main_ocr w (webBrowserOption cl) (parser_value cl) ?g"
    using assms by (rule main_ocr_reached)
  obtain cs where cs:
    "calls (snd (main w cl)) =
       calls ?g @ snd (extractText w (tempPath w) (parser_value cl)) @ cs"
    "filter is_ocr_call cs = []" "ocr_invocations cs = []"
    using main_ocr_calls [of w "webBrowserOption cl" "parser_value cl" ?g] m by auto
  have g1: "filter is_ocr_call (calls ?g) = []"
    by (simp add: calls_after_capture calls_after_qr is_ocr_call_takeScreenshot
        is_ocr_call_detectQrCode)
  have g2: "ocr_invocations (calls ?g) = []"
    by (simp add: calls_after_capture calls_after_qr ocr_invocations_append
        takeScreenshot_snd detectQrCode_snd)
  show ?thesis
    using cs g1 g2
    by (simp add: ocr_invocations_append ocr_invocations_extractText
        is_ocr_call_extractText parser_value_def)
qed

theorem ocr_invoked_once_with_language_witness:
  "fst (takeScreenshot world0 (tempPath world0)) \<and>
   (disable_qr cmdline0 \<or> \<not> success (fst (detectQrCode world0 (tempPath world0)))) \<and>
   ocr_invocations (calls (snd (main world0 cmdline0))) = [''eng''] \<and>
   filter is_ocr_call (calls (snd (main world0 cmdline0))) =
     [TessInit ''eng'', PixRead ''/tmp/screenshot.png'', TessSetImage, TessGetUTF8Text,
      PixDestroy, TessEnd]"
proof -
  have h1: "fst (takeScreenshot world0 (tempPath world0))"
    by (rule world0_captured)
  have h2: "disable_qr cmdline0 \<or> \<not> success (fst (detectQrCode world0 (tempPath world0)))"
    by (simp add: world0_detect)
  have l: "parser_value cmdline0 = ''eng''"
    by (simp add: parser_value_def cmdline0_def)
  have e: "snd (extractText world0 (tempPath world0) ''eng'') =
     [TessInit ''eng'', PixRead ''/tmp/screenshot.png'', TessSetImage, TessGetUTF8Text,
      PixDestroy, TessEnd]"
    by (simp add: extractText_snd tempPath_def world0_def)
  show ?thesis
    using h1 h2 ocr_invoked_once_with_language [OF h1 h2] by (simp add: l e)
qed

section \<open>The OCR engine does not initialise\<close>




section \<open>The exported page\<close>

lemma file_writes_browserButton:
  "file_writes (calls (browserButton_clicked w g)) =
     file_writes (calls g) @
     (if textEdit g \<noteq> [] \<and> QFile_open w (html_path w)
      then [(html_path w, html_document w (toHtmlEscaped (textEdit g)))]
      else [])"
  by (simp add: browserButton_clicked_def Let_def gui_ops file_writes_append)

lemma toHtmlEscaped_append: "toHtmlEscaped (a @ b) = toHtmlEscaped a @ toHtmlEscaped b"
  by (simp add: toHtmlEscaped_def)

lemma toHtmlEscaped_Cons: "toHtmlEscaped (c # s) = htmlEscapeChar c @ toHtmlEscaped s"
  by (simp add: toHtmlEscaped_def)

lemma htmlEscapeChar_no_angle:
  "CHR ''<'' \<notin> set (htmlEscapeChar c)" "CHR ''>'' \<notin> set (htmlEscapeChar c)"
  by (simp_all add: htmlEscapeChar_def)

lemma toHtmlEscaped_no_angle:
  "CHR ''<'' \<notin> set (toHtmlEscaped s)" "CHR ''>'' \<notin> set (toHtmlEscaped s)"
  by (simp_all add: toHtmlEscaped_def htmlEscapeChar_no_angle)

lemma htmlEscapeChar_token:
  \<open>htmlEscapeChar c \<in> set html_entities \<or>
   (htmlEscapeChar c = [c] \<and> c \<notin> {CHR ''<'', CHR ''>'', CHR ''&'', CHR ''"''})\<close>
  by (simp add: htmlEscapeChar_def html_entities_def)

lemma toHtmlEscaped_tokens:
  \<open>list_all (\<lambda>t. t \<in> set html_entities \<or>
                 (\<exists>c. t = [c] \<and> c \<notin> {CHR ''<'', CHR ''>'', CHR ''&'', CHR ''"''}))
     (map htmlEscapeChar s)\<close>
  using htmlEscapeChar_token by (induction s) auto

text \<open>
  Claim C5. Every HTML export embeds the current text escaped. The only file \<open>main\<close>
  writes is the page of the automatic export (after the barcode or after the OCR), whose
  template surrounds the escaped text of the recognition; the only file the browser
  button writes is its page, whose template surrounds the escaped content of the text
  area. In the escaped text every \<open><\<close>, \<open>>\<close> and \<open>&\<close> of the text stands as the entity
  \<open>&lt;\<close>, \<open>&gt;\<close> or \<open>&amp;\<close> at its place, no literal angle bracket is left, and the
  escaped text is a sequence of entities and of single characters other than \<open><\<close>,
  \<open>>\<close>, \<open>&\<close> and the double quote.
\<close>

theorem html_export_escapes_text:
  \<open>file_writes (calls (snd (main w cl))) =
     (if webBrowserOption cl \<and> recognition_succeeds w cl \<and> QFile_open w (html_path w)
      then [(html_path w,
             html_head @ currentDateTime w ''yyyy-MM-dd hh:mm:ss'' @ html_mid @
             toHtmlEscaped (text (recognised w cl)) @ html_tail)]
      else []) \<and>
   file_writes (calls (browserButton_clicked w g)) =
     file_writes (calls g) @
     (if textEdit g \<noteq> [] \<and> QFile_open w (html_path w)
      then [(html_path w,
             html_head @ currentDateTime w ''yyyy-MM-dd hh:mm:ss'' @ html_mid @
             toHtmlEscaped (textEdit g) @ html_tail)]
      else []) \<and>
   toHtmlEscaped (a @ CHR ''<'' # b) = toHtmlEscaped a @ ''&lt;'' @ toHtmlEscaped b \<and>
   toHtmlEscaped (a @ CHR ''>'' # b) = toHtmlEscaped a @ ''&gt;'' @ toHtmlEscaped b \<and>
   toHtmlEscaped (a @ CHR ''&'' # b) = toHtmlEscaped a @ ''&amp;'' @ toHtmlEscaped b \<and>
   CHR ''<'' \<notin> set (toHtmlEscaped s) \<and>
   CHR ''>'' \<notin> set (toHtmlEscaped s) \<and>
   (\<exists>ts. toHtmlEscaped s = concat ts \<and> length ts = length s \<and>
      list_all (\<lambda>t. t \<in> set html_entities \<or>
                  (\<exists>c. t = [c] \<and> c \<notin> {CHR ''<'', CHR ''>'', CHR ''&'', CHR ''"''})) ts)\<close>
proof -
  have m: "file_writes (calls (snd (main w cl))) =
     (if webBrowserOption cl \<and> recognition_succeeds w cl \<and> QFile_open w (html_path w)
      then [(html_path w,
             html_head @ currentDateTime w ''yyyy-MM-dd hh:mm:ss'' @ html_mid @
             toHtmlEscaped (text (recognised w cl)) @ html_tail)]
      else [])"
    by (simp add: file_writes_main html_document_def)
  have b: "file_writes (calls (browserButton_clicked w g)) =
     file_writes (calls g) @
     (if textEdit g \<noteq> [] \<and> QFile_open w (html_path w)
      then [(html_path w,
             html_head @ currentDateTime w ''yyyy-MM-dd hh:mm:ss'' @ html_mid @
             toHtmlEscaped (textEdit g) @ html_tail)]
      else [])"
    by (simp add: file_writes_browserButton html_document_def)
  have e: "toHtmlEscaped (a @ CHR ''<'' # b) = toHtmlEscaped a @ ''&lt;'' @ toHtmlEscaped b"
    "toHtmlEscaped (a @ CHR ''>'' # b) = toHtmlEscaped a @ ''&gt;'' @ toHtmlEscaped b"
    "toHtmlEscaped (a @ CHR ''&'' # b) = toHtmlEscaped a @ ''&amp;'' @ toHtmlEscaped b"
    by (simp_all add: toHtmlEscaped_append toHtmlEscaped_Cons htmlEscapeChar_def)
  have t: \<open>\<exists>ts. toHtmlEscaped s = concat ts \<and> length ts = length s \<and>
      list_all (\<lambda>t. t \<in> set html_entities \<or>
                  (\<exists>c. t = [c] \<and> c \<notin> {CHR ''<'', CHR ''>'', CHR ''&'', CHR ''"''})) ts\<close>
    using toHtmlEscaped_tokens [of s]
    by (intro exI [of _ "map htmlEscapeChar s"]) (simp add: toHtmlEscaped_def)
  from m b e t toHtmlEscaped_no_angle [of s] show ?thesis
    by blast
qed

theorem html_export_escapes_text_witness:
  "text (recognised world0 cmdline_web) = ''a<b'' \<and>
   file_writes (calls (snd (main world0 cmdline_web))) =
     [(''/tmp/ocr_result_20240101_120000.html'',
       html_head @ ''2024-01-01 12:00:00'' @ html_mid @ ''a&lt;b'' @ html_tail)] \<and>
   file_writes (calls (browserButton_clicked world0 gui_ab)) =
     [(''/tmp/ocr_result_20240101_120000.html'',
       html_head @ ''2024-01-01 12:00:00'' @ html_mid @ ''a&lt;b'' @ html_tail)]"
proof -
  have r: "recognition_succeeds world0 cmdline_web"
    by (simp add: recognition_succeeds_def world0_captured world0_detect world0_extract
        parser_value_def cmdline_web_def cmdline0_def)
  have x: "text (recognised world0 cmdline_web) = ''a<b''"
    by (simp add: recognised_def world0_detect world0_extract parser_value_def
        cmdline_web_def cmdline0_def)
  have o: "QFile_open world0 (html_path world0)" "webBrowserOption cmdline_web"
    "currentDateTime world0 ''yyyy-MM-dd hh:mm:ss'' = ''2024-01-01 12:00:00''"
    by (simp_all add: world0_def cmdline_web_def)
  have g: "textEdit gui_ab = ''a<b''" "calls gui_ab = []"
    by (simp_all add: gui_ab_def)
  have a: "toHtmlEscaped ''a'' = ''a''" "toHtmlEscaped ''b'' = ''b''"
    by (simp_all add: toHtmlEscaped_def htmlEscapeChar_def)
  show ?thesis
    using html_export_escapes_text [of world0 cmdline_web gui_ab "''a''" "''b''" "[]"] r o g a
    by (simp add: x world0_html_path)
qed

section \<open>Copy and save with an empty text area\<close>

text \<open>
  Claim C6. When the text area is empty, the copy button and the save-text button change
  nothing but the status label, which becomes \<open>No text to copy\<close> and \<open>No text to save\<close>:
  the log of calls is unchanged, so nothing is written to the clipboard, no dialog is
  opened and no file is written.
\<close>

theorem empty_text_copy_save_noop:
  assumes "textEdit g = []"
  shows "copyButton_clicked w g = g\<lparr>label := ''No text to copy''\<rparr> \<and>
         saveButton_clicked w g = g\<lparr>label := ''No text to save''\<rparr> \<and>
         calls (copyButton_clicked w g) = calls g \<and>
         calls (saveButton_clicked w g) = calls g"
  using assms by (simp add: copyButton_clicked_def saveButton_clicked_def label_setText_def)

theorem empty_text_copy_save_noop_witness:
  "textEdit (window_new ''eng'') = [] \<and>
   copyButton_clicked world0 (window_new ''eng'') = (window_new ''eng'')\<lparr>label := ''No text to copy''\<rparr> \<and>
   saveButton_clicked world0 (window_new ''eng'') = (window_new ''eng'')\<lparr>label := ''No text to save''\<rparr> \<and>
   calls (copyButton_clicked world0 (window_new ''eng'')) = [] \<and>
   calls (saveButton_clicked world0 (window_new ''eng'')) = []"
proof -
  have h: "textEdit (window_new ''eng'') = []"
    by (simp add: window_new_def)
  have c: "calls (window_new ''eng'') = []"
    by (simp add: window_new_def)
  show ?thesis
    using h empty_text_copy_save_noop [OF h, of world0] by (simp add: c)
qed

section \<open>Automatic export\<close>

lemma main_ocr_exit:
  "fst (main_ocr w b l g) =
     (if b \<and> success (fst (extractText w (tempPath w) l)) then 0 else app_exec w)"
  by (simp add: main_ocr_def case_prod_beta Let_def)

lemma main_ocr_shown:
  assumes "WindowShow \<notin> set (calls g)"
  shows "WindowShow \<in> set (calls (snd (main_ocr w b l g))) \<longleftrightarrow>
     \<not> (b \<and> success (fst (extractText w (tempPath w) l)))"
  using assms
  by (simp add: main_ocr_def case_prod_beta Let_def gui_ops calls_autoExport extractText_snd)

text \<open>
  Claim C7. When the browser export is requested and the recognition (barcode or OCR)
  succeeds, \<open>main\<close> returns 0; and the window is shown in a run exactly when it is not
  the case that the export is requested and the recognition succeeds.
\<close>

theorem auto_export_exits_without_window:
  "(webBrowserOption cl \<and> recognition_succeeds w cl \<longrightarrow> fst (main w cl) = 0) \<and>
   (WindowShow \<in> set (calls (snd (main w cl))) \<longleftrightarrow>
      \<not> (webBrowserOption cl \<and> recognition_succeeds w cl))"
proof (cases "fst (takeScreenshot w (tempPath w))")
  case False
  then show ?thesis
    by (simp add: main_capture_failed recognition_succeeds_def)
next
  case captured: True
  show ?thesis
  proof (cases "\<not> disable_qr cl \<and> success (fst (detectQrCode w (tempPath w)))")
    case True
    then show ?thesis
      using captured
      by (simp add: main_qr_success recognition_succeeds_def Let_def calls_autoExport
          gui_ops no_show_after_qr)
  next
    case False
    then have r: "disable_qr cl \<or> \<not> success (fst (detectQrCode w (tempPath w)))"
      by blast
    have m: "main w cl = main_ocr w (webBrowserOption cl) (parser_value cl)
               (if disable_qr cl then after_capture w cl else after_qr w cl)"
      using captured r by (rule main_ocr_reached)
    have n: "WindowShow \<notin> set (calls (if disable_qr cl then after_capture w cl else after_qr w cl))"
      by (simp add: no_show_after_capture no_show_after_qr)
    show ?thesis
      using captured r main_ocr_shown [OF n, of w "webBrowserOption cl" "parser_value cl"]
      by (auto simp add: m main_ocr_exit recognition_succeeds_def)
  qed
qed

theorem auto_export_exits_without_window_witness:
  "webBrowserOption cmdline_web \<and> recognition_succeeds world_qr cmdline_web \<and>
   fst (main world_qr cmdline_web) = 0 \<and>
   WindowShow \<notin> set (calls (snd (main world_qr cmdline_web))) \<and>
   \<not> webBrowserOption cmdline0 \<and>
   WindowShow \<in> set (calls (snd (main world_qr cmdline0)))"
proof -
  have h1: "webBrowserOption cmdline_web" "\<not> webBrowserOption cmdline0"
    by (simp_all add: cmdline_web_def cmdline0_def)
  have h2: "recognition_succeeds world_qr cmdline_web"
    by (simp add: recognition_succeeds_def world_qr_captured world_qr_detect
        cmdline_web_def cmdline0_def)
  show ?thesis
    using h1 h2 auto_export_exits_without_window [of cmdline_web world_qr] auto_export_exits_without_window [of cmdline0 world_qr] by simp
qed

section \<open>The messages of the barcode detector\<close>

text \<open>
  Claim C8 has the detector answer one single message for every failure. It does not:
  an image that fails to load and an image without a decodable code get different
  messages.
\<close>

theorem detectQrCode_messages_differ:
  "\<not> success (fst (detectQrCode world_missing ''missing.png'')) \<and>
   \<not> success (fst (detectQrCode world_missing ''blank.png'')) \<and>
   errorMessage (fst (detectQrCode world_missing ''missing.png'')) =
     ''Failed to load image for QR detection'' \<and>
   errorMessage (fst (detectQrCode world_missing ''blank.png'')) =
     ''Failed to detect valid QR code'' \<and>
   errorMessage (fst (detectQrCode world_missing ''missing.png'')) \<noteq>
     errorMessage (fst (detectQrCode world_missing ''blank.png''))"
  by (simp add: detectQrCode_def Let_def OcrResult_new_def world_missing_def world0_def)

text \<open>
  Claim C8, amended. On every image path on which the detector does not decode a
  barcode it returns a failure with an empty text and a fixed message for each of the
  two causes: \<open>Failed to load image for QR detection\<close> when the image does not load,
  \<open>Failed to detect valid QR code\<close> when it loads and holds no valid code.
\<close>

theorem detectQrCode_failure_message:
  assumes "\<not> success (fst (detectQrCode w p))"
  shows "fst (detectQrCode w p) =
     \<lparr>text = [], success = False,
      errorMessage = (if QImage_load w p = None
                      then ''Failed to load image for QR detection''
                      else ''Failed to detect valid QR code''),
      isQrCode = False\<rparr>"
proof (cases "QImage_load w p")
  case None
  then show ?thesis
    by (simp add: detectQrCode_def Let_def OcrResult_new_def)
next
  case (Some img)
  let ?img = "if format img \<noteq> Format_RGB32 \<and> format img \<noteq> Format_ARGB32
              then convertToFormat w img Format_RGB32 else img"
  show ?thesis
  proof (cases "ReadBarcode w ?img")
    case None
    with Some show ?thesis
      by (simp add: detectQrCode_def Let_def OcrResult_new_def)
  next
    case (Some t)
    with \<open>QImage_load w p = Some img\<close> have "success (fst (detectQrCode w p))"
      by (simp add: detectQrCode_def Let_def OcrResult_new_def)
    with assms show ?thesis
      by simp
  qed
qed

theorem detectQrCode_failure_message_witness:
  "\<not> success (fst (detectQrCode world_missing ''missing.png'')) \<and>
   fst (detectQrCode world_missing ''missing.png'') =
     \<lparr>text = [], success = False, errorMessage = ''Failed to load image for QR detection'',
      isQrCode = False\<rparr> \<and>
   \<not> success (fst (detectQrCode world_missing ''blank.png'')) \<and>
   fst (detectQrCode world_missing ''blank.png'') =
     \<lparr>text = [], success = False, errorMessage = ''Failed to detect valid QR code'',
      isQrCode = False\<rparr>"
proof -
  have h1: "\<not> success (fst (detectQrCode world_missing ''missing.png''))"
    by (simp add: detectQrCode_def Let_def OcrResult_new_def world_missing_def)
  have h2: "\<not> success (fst (detectQrCode world_missing ''blank.png''))"
    by (simp add: detectQrCode_def Let_def OcrResult_new_def world_missing_def world0_def)
  have l: "QImage_load world_missing ''missing.png'' = None"
    "QImage_load world_missing ''blank.png'' \<noteq> None"
    by (simp_all add: world_missing_def)
  show ?thesis
    using h1 h2 detectQrCode_failure_message [OF h1] detectQrCode_failure_message [OF h2] l by simp
qed

section \<open>A page that cannot be written\<close>

text \<open>
  Claim C9 asks for an alert and a status update at every failed write, the automatic
  export included. In a run with \<open>--web\<close>, a decoded barcode and a page that cannot be
  opened for writing, \<open>main\<close> returns 0 with the status of the success, without an
  alert and without the window; the browser button, pressed on the same window in the
  same world, sets the status \<open>Failed to create HTML file\<close> and raises the alert.
\<close>

theorem auto_export_write_failure_is_silent:
  "main world_readonly cmdline_web =
     (0, \<lparr>windowTitle = ''Spectacle Screenshot OCR - Language: eng'',
          label = ''QR code detected and decoded successfully'',
          textEdit = ''https://example.org'',
          calls = [Execute ''spectacle'' [''-b'', ''-r'', ''-n'', ''-o'', ''/tmp/screenshot.png''],
                   LoadQImage ''/tmp/screenshot.png'', ZXingRead,
                   FileOpen ''/tmp/ocr_result_20240101_120000.html'']\<rparr>) \<and>
   browserButton_clicked world_readonly (snd (main world_readonly cmdline_web)) =
     \<lparr>windowTitle = ''Spectacle Screenshot OCR - Language: eng'',
      label = ''Failed to create HTML file'',
      textEdit = ''https://example.org'',
      calls = [Execute ''spectacle'' [''-b'', ''-r'', ''-n'', ''-o'', ''/tmp/screenshot.png''],
               LoadQImage ''/tmp/screenshot.png'', ZXingRead,
               FileOpen ''/tmp/ocr_result_20240101_120000.html'',
               FileOpen ''/tmp/ocr_result_20240101_120000.html'',
               MessageBoxCritical ''Error'' ''Failed to create temporary HTML file'']\<rparr>"
proof -
  have m: "main world_readonly cmdline_web =
     (0, \<lparr>windowTitle = ''Spectacle Screenshot OCR - Language: eng'',
          label = ''QR code detected and decoded successfully'',
          textEdit = ''https://example.org'',
          calls = [Execute ''spectacle'' [''-b'', ''-r'', ''-n'', ''-o'', ''/tmp/screenshot.png''],
                   LoadQImage ''/tmp/screenshot.png'', ZXingRead,
                   FileOpen ''/tmp/ocr_result_20240101_120000.html'']\<rparr>)"
    by (simp add: main_def Let_def case_prod_beta takeScreenshot_def detectQrCode_def
        autoExport_def html_path_def tempPath_def parser_value_def OcrResult_new_def gui_ops
        world_readonly_def world_qr_def world0_def cmdline_web_def cmdline0_def)
  show ?thesis
    unfolding m
    by (simp add: browserButton_clicked_def Let_def html_path_def gui_ops
        world_readonly_def world_qr_def world0_def)
qed

section \<open>Saving the image\<close>

text \<open>
  Claim C10. The save-image button opens the file dialog first, whatever the text area
  holds; given a chosen name it then copies the screenshot from its temporary place to
  that name (and raises an alert if the copy fails). It neither reads nor changes the
  text area: with any other content of the text area it does the same.
\<close>

theorem save_image_ignores_text_area:
  "calls (saveImageButton_clicked w g) =
     calls g @
     SaveFileDialog ''Save Screenshot''
       (QDir_homePath w @ ''/Screenshot_'' @ currentDateTime w ''yyyyMMdd_hhmmss'')
       image_filter #
     (if getSaveFileName w ''Save Screenshot''
           (QDir_homePath w @ ''/Screenshot_'' @ currentDateTime w ''yyyyMMdd_hhmmss'')
           image_filter \<noteq> []
      then FileCopy (tempPath w)
             (getSaveFileName w ''Save Screenshot''
                (QDir_homePath w @ ''/Screenshot_'' @ currentDateTime w ''yyyyMMdd_hhmmss'')
                image_filter) #
           (if QFile_copy w (tempPath w)
                 (getSaveFileName w ''Save Screenshot''
                    (QDir_homePath w @ ''/Screenshot_'' @
                     currentDateTime w ''yyyyMMdd_hhmmss'')
                    image_filter)
            then []
            else [MessageBoxCritical ''Error'' ''Failed to save the screenshot file''])
      else []) \<and>
   saveImageButton_clicked w (g\<lparr>textEdit := t\<rparr>) =
     (saveImageButton_clicked w g)\<lparr>textEdit := t\<rparr> \<and>
   textEdit (saveImageButton_clicked w g) = textEdit g"
  by (simp add: saveImageButton_clicked_def Let_def gui_ops)

theorem save_image_ignores_text_area_witness:
  "getSaveFileName world0 ''Save Screenshot'' ''/home/u/Screenshot_20240101_120000''
     image_filter \<noteq> [] \<and>
   textEdit (window_new ''eng'') = [] \<and>
   calls (saveImageButton_clicked world0 (window_new ''eng'')) =
     [SaveFileDialog ''Save Screenshot'' ''/home/u/Screenshot_20240101_120000'' image_filter,
      FileCopy ''/tmp/screenshot.png'' ''/home/u/out''] \<and>
   calls (saveImageButton_clicked world0 ((window_new ''eng'')\<lparr>textEdit := ''a<b''\<rparr>)) =
     [SaveFileDialog ''Save Screenshot'' ''/home/u/Screenshot_20240101_120000'' image_filter,
      FileCopy ''/tmp/screenshot.png'' ''/home/u/out'']"
proof -
  have w: "getSaveFileName world0 = (\<lambda>caption dir filter. ''/home/u/out'')"
    "QFile_copy world0 = (\<lambda>src dst. True)"
    "QDir_homePath world0 = ''/home/u''"
    "currentDateTime world0 ''yyyyMMdd_hhmmss'' = ''20240101_120000''"
    "tempPath world0 = ''/tmp/screenshot.png''"
    by (simp_all add: world0_def tempPath_def)
  have g: "calls (window_new ''eng'') = []" "textEdit (window_new ''eng'') = []"
    by (simp_all add: window_new_def)
  show ?thesis
    using save_image_ignores_text_area [of world0 "window_new ''eng''" "''a<b''"]
      save_image_ignores_text_area [of world0 "(window_new ''eng'')\<lparr>textEdit := ''a<b''\<rparr>" "''a<b''"]
    by (simp add: w g)
qed

end
